theory Spec2Isabelle
  imports Complex_Main
begin

section \<open>Satellite tracking: frequency and rotor control loop\<close>

text \<open>
  A shallow embedding of the tracking code of \<^verbatim>\<open>satellites.py\<close>. Python floats are
  modelled as reals, Python ints as \<^typ>\<open>int\<close>, attributes that may be unset or
  \<^verbatim>\<open>None\<close> as options, and every raise as an error value. Products and differences
  of floats are exact; the two sums that \<^verbatim>\<open>int()\<close> turns into VFO frequencies are
  rounded to double precision at each addition, since there the rounding decides the
  integer.
\<close>

subsection \<open>Flip decision of \<^verbatim>\<open>plot_sky_track\<close>\<close>

text \<open>
  \<^verbatim>\<open>quad2 = np.logical_and(track_az>90 , track_az<180)\<close> and
  \<^verbatim>\<open>quad3 = np.logical_and(track_az>180 , track_az<270)\<close>, elementwise.
\<close>

definition quad2 :: "real \<Rightarrow> bool" where
  "quad2 a \<longleftrightarrow> a > 90 \<and> a < 180"

definition quad3 :: "real \<Rightarrow> bool" where
  "quad3 a \<longleftrightarrow> a > 180 \<and> a < 270"

definition THRESH :: real where
  "THRESH = 15"

text \<open>
  The loop \<^verbatim>\<open>for i in range(len(az))\<close> with its running \<^verbatim>\<open>min2\<close> and \<^verbatim>\<open>max3\<close>.
\<close>

fun flip_scan :: "real list \<Rightarrow> real \<Rightarrow> real \<Rightarrow> real \<times> real" where
  "flip_scan [] min2 max3 = (min2, max3)"
| "flip_scan (a # az) min2 max3 =
     (if quad2 a then flip_scan az (min min2 a) max3
      else if quad3 a then flip_scan az min2 (max max3 a)
      else flip_scan az min2 max3)"

definition plot_sky_track_flipper :: "real list \<Rightarrow> bool" where
  "plot_sky_track_flipper az =
     (let flipper = (list_ex quad2 az \<and> list_ex quad3 az) in
      if flipper then
        (case flip_scan az 360 0 of
           (min2, max3) \<Rightarrow>
             if max3 < 180 + THRESH \<or> min2 > 180 - THRESH then False else flipper)
      else flipper)"

subsection \<open>Transponder table: \<^verbatim>\<open>SATELLITE.get_transponders\<close>\<close>

datatype py_error =
    KeyError string
  | ValueError
  | IndexError
  | TypeError
  | AttributeError string
  | SystemExit

text \<open>
  Python's \<^verbatim>\<open>int(s)\<close> on a string, for ASCII input: surrounding white space is
  stripped, one sign is allowed, then decimal digits, with single underscores allowed
  between digits; anything else raises \<^verbatim>\<open>ValueError\<close>.
\<close>

definition is_space :: "char \<Rightarrow> bool" where
  "is_space c \<longleftrightarrow> c \<in> set [CHR '' '', CHR 0x09, CHR 0x0A, CHR 0x0B, CHR 0x0C, CHR 0x0D,
                            CHR 0x1C, CHR 0x1D, CHR 0x1E, CHR 0x1F]"

definition is_digit :: "char \<Rightarrow> bool" where
  "is_digit c \<longleftrightarrow> c \<in> set ''0123456789''"

definition digit_val :: "char \<Rightarrow> nat" where
  "digit_val c = of_char c - 48"

definition strip :: "string \<Rightarrow> string" where
  "strip s = rev (dropWhile is_space (rev (dropWhile is_space s)))"

fun int_digits :: "string \<Rightarrow> nat \<Rightarrow> nat option" where
  "int_digits [] acc = Some acc"
| "int_digits [c] acc = (if is_digit c then Some (10 * acc + digit_val c) else None)"
| "int_digits (c # d # ds) acc =
     (if is_digit c then int_digits (d # ds) (10 * acc + digit_val c)
      else if c = CHR ''_'' \<and> is_digit d then int_digits ds (10 * acc + digit_val d)
      else None)"

definition nat_of_str :: "string \<Rightarrow> nat option" where
  "nat_of_str s =
     (case s of
        [] \<Rightarrow> None
      | c # cs \<Rightarrow> if is_digit c then int_digits cs (digit_val c) else None)"

definition int_of_str :: "string \<Rightarrow> py_error + int" where
  "int_of_str s =
     (case strip s of
        [] \<Rightarrow> Inl ValueError
      | c # cs \<Rightarrow>
          if c = CHR ''-'' then
            (case nat_of_str cs of None \<Rightarrow> Inl ValueError | Some n \<Rightarrow> Inr (- int n))
          else if c = CHR ''+'' then
            (case nat_of_str cs of None \<Rightarrow> Inl ValueError | Some n \<Rightarrow> Inr (int n))
          else
            (case nat_of_str (c # cs) of None \<Rightarrow> Inl ValueError | Some n \<Rightarrow> Inr (int n)))"

text \<open>
  \<^verbatim>\<open>str.upper\<close> on ASCII text, and the substring test \<^verbatim>\<open>sub in s\<close>.
\<close>

definition upper_char :: "char \<Rightarrow> char" where
  "upper_char c =
     (case map_of (zip ''abcdefghijklmnopqrstuvwxyz'' ''ABCDEFGHIJKLMNOPQRSTUVWXYZ'') c of
        None \<Rightarrow> c
      | Some u \<Rightarrow> u)"

definition upper :: "string \<Rightarrow> string" where
  "upper s = map upper_char s"

fun starts_with :: "string \<Rightarrow> string \<Rightarrow> bool" where
  "starts_with [] s = True"
| "starts_with (p # ps) [] = False"
| "starts_with (p # ps) (c # cs) = (p = c \<and> starts_with ps cs)"

fun str_in :: "string \<Rightarrow> string \<Rightarrow> bool" where
  "str_in sub [] = (sub = [])"
| "str_in sub (c # cs) = (starts_with sub (c # cs) \<or> str_in sub cs)"

text \<open>
  The entries of a transponder's \<^verbatim>\<open>items\<close> dictionary that the tracking code reads.
  A section of the transponder file is the dictionary of its options, all strings.
\<close>

record transponder =
  fdn1 :: int
  fdn2 :: int
  fup1 :: int
  fup2 :: int
  Inverting :: bool
  mode :: string

type_synonym config_section = "string \<rightharpoonup> string"

text \<open>
  The first half of the loop body: the numeric fields and the inversion flag. The
  condition \<^verbatim>\<open>items['Inverting'] and False\<close> of the swap is kept as written.
\<close>

definition opt_int :: "config_section \<Rightarrow> string \<Rightarrow> int \<Rightarrow> py_error + int" where
  "opt_int items key dflt =
     (case items key of None \<Rightarrow> Inr dflt | Some v \<Rightarrow> int_of_str v)"

definition section_items :: "config_section \<Rightarrow> py_error + transponder" where
  "section_items items =
     (case items ''down_low'' of
        None \<Rightarrow> Inl (KeyError ''down_low'')
      | Some dl \<Rightarrow>
     (case int_of_str dl of Inl e \<Rightarrow> Inl e | Inr f1 \<Rightarrow>
     (case opt_int items ''down_high'' f1 of Inl e \<Rightarrow> Inl e | Inr f2 \<Rightarrow>
     (case opt_int items ''up_low'' 0 of Inl e \<Rightarrow> Inl e | Inr u1 \<Rightarrow>
     (case opt_int items ''up_high'' u1 of Inl e \<Rightarrow> Inl e | Inr u2 \<Rightarrow>
        (let inv = (case items ''invert'' of None \<Rightarrow> False | Some v \<Rightarrow> v = ''true'');
             (u1', u2') = (if inv \<and> False then (u2, u1) else (u1, u2))
         in case items ''mode'' of
              None \<Rightarrow> Inl (KeyError ''mode'')
            | Some m \<Rightarrow>
                Inr \<lparr>fdn1 = f1, fdn2 = f2, fup1 = u1', fup2 = u2',
                     Inverting = inv, mode = m\<rparr>))))))"

text \<open>
  The second half: the name test that flags the main transponder. The state is
  \<^verbatim>\<open>self.main\<close> and the number of warnings printed so far; \<^verbatim>\<open>not self.main\<close> is
  true for \<^verbatim>\<open>None\<close> and for the empty string.
\<close>

definition name_excluded :: "string \<Rightarrow> bool" where
  "name_excluded transp2 \<longleftrightarrow> str_in ''PE0SAT'' transp2 \<or> str_in ''L/V'' transp2"

definition name_fits :: "string \<Rightarrow> bool" where
  "name_fits transp2 \<longleftrightarrow>
     str_in ''FM VOICE'' transp2 \<or> ''MODE U/V (B) LIN'' = transp2 \<or>
     ''MODE U/V LINEAR'' = transp2 \<or> ''MODE V/U FM'' = transp2 \<or>
     str_in ''TRANSPONDER'' transp2 \<or> str_in ''TRANSPODER'' transp2"

definition flag_main :: "string \<Rightarrow> string option \<times> nat \<Rightarrow> string option \<times> nat" where
  "flag_main tname st =
     (case st of (main, warnings) \<Rightarrow>
        (let transp2 = upper tname in
         if name_excluded transp2 then (main, warnings)
         else if name_fits transp2 then
           (if main = None \<or> main = Some [] then (Some tname, warnings)
            else (main, Suc warnings))
         else (main, warnings)))"

record satellite =
  main :: "string option"
  warnings :: nat
  transponders :: "(string \<times> transponder) list"

fun get_transponders_loop ::
  "(string \<times> config_section) list \<Rightarrow> satellite \<Rightarrow> py_error + satellite" where
  "get_transponders_loop [] sat = Inr sat"
| "get_transponders_loop ((tname, items) # rest) sat =
     (case section_items items of
        Inl e \<Rightarrow> Inl e
      | Inr t \<Rightarrow>
          (case flag_main tname (main sat, warnings sat) of
             (m, w) \<Rightarrow>
               get_transponders_loop rest
                 (sat\<lparr>main := m, warnings := w,
                       transponders := transponders sat @ [(tname, t)]\<rparr>)))"

definition get_transponders :: "(string \<times> config_section) list \<Rightarrow> py_error + satellite" where
  "get_transponders config =
     get_transponders_loop config \<lparr>main = None, warnings = 0, transponders = []\<rparr>"

subsection \<open>Doppler shifts: \<^verbatim>\<open>SATELLITE.Doppler_Shifts\<close>\<close>

text \<open>
  What \<^verbatim>\<open>predict.observe\<close> reports at the current time: the Doppler shift of a
  100 MHz carrier, azimuth and elevation.
\<close>

record observation =
  doppler :: real
  azimuth :: real
  elevation :: real

definition Doppler_Shifts :: "observation \<Rightarrow> real \<Rightarrow> real \<Rightarrow> real \<times> real \<times> real \<times> real" where
  "Doppler_Shifts obs fdown fup =
     (let dop100 = doppler obs;
          fdop1 = 1 / 10 ^ 8 * dop100 * fdown;
          fdop2 = - (1 / 10 ^ 8) * dop100 * fup;
          az = azimuth obs;
          el = elevation obs
      in (fdop1, fdop2, az, el))"

subsection \<open>The control state and its surroundings\<close>

text \<open>
  The fields of the GUI object that the control loop reads and writes.
\<close>

record gui_state =
  Selected :: "string option"
  New_Sat_Selection :: bool
  flipper :: bool
  rit :: int
  xit :: int
  rig_engaged :: bool
  track_az :: "real list"
  Satellites :: "string \<rightharpoonup> satellite"

text \<open>
  One row of the log file, in the order of \<^verbatim>\<open>row\<close> in \<^verbatim>\<open>track_freqs\<close>. The rotor
  readings are \<^verbatim>\<open>nan\<close> (here \<open>None\<close>) when no rotor is connected.
\<close>

record log_row =
  row_Selected :: "string option"
  row_fup :: real
  row_fdown :: real
  row_df :: real
  row_fdop1 :: real
  row_fdop2 :: real
  row_frqA :: int
  row_frqB :: int
  row_az :: real
  row_el :: real
  row_pos0 :: "real option"
  row_pos1 :: "real option"
  row_new_pos0 :: real
  row_new_pos1 :: real
  row_daz :: "real option"
  row_de :: "real option"
  row_flipper :: bool
  row_rig_engaged :: bool
  row_rotor_updated :: bool

text \<open>
  The attributes of \<^verbatim>\<open>RigControl\<close>. \<^verbatim>\<open>fdown\<close> starts as \<^verbatim>\<open>None\<close> and \<^verbatim>\<open>frqA\<close> as 0;
  the others do not exist until first assigned (\<open>None\<close> here), and reading one before
  raises \<^verbatim>\<open>AttributeError\<close>.
\<close>

record rig_control =
  fdown :: "real option"
  frqA :: int
  frqB :: "int option"
  fup :: "real option"
  fdop1 :: "real option"
  vfos :: "string list option"
  transp_cur :: "transponder option"
  fp_log :: "log_row list"

text \<open>
  What a call reads from the devices: the rig type, the VFO frequencies, the band of a
  frequency in MHz, the rotor connection and its position, and the observation of the
  satellite at the current time.
\<close>

record env =
  rig_type2 :: "string option"
  USE_SDR :: bool
  get_freq :: "string \<Rightarrow> real"
  get_band :: "real \<Rightarrow> string"
  sock2_active :: bool
  get_position :: "real \<times> real"
  observe :: observation

text \<open>The calls that write to the devices.\<close>

datatype filter_arg = NotGiven | Filter "string option"

datatype command =
    split_mode nat
  | sat_mode nat
  | select_vfo string
  | set_mode string string filter_arg
  | set_freq real string
  | sdr_set_freq real
  | set_position real real
  | recorder bool

definition ROTOR_THRESH :: real where
  "ROTOR_THRESH = 10"

text \<open>Python's \<^verbatim>\<open>int(x)\<close> on a float: truncation toward zero.\<close>

definition py_int :: "real \<Rightarrow> int" where
  "py_int x = (if x \<ge> 0 then \<lfloor>x\<rfloor> else \<lceil>x\<rceil>)"

text \<open>
  A float addition: the exact sum rounded to the nearest double (53 significant bits,
  ties to the even significand). \<open>float_exponent x\<close> is the \<open>e\<close> with
  \<open>2 ^ e \<le> \<bar>x\<bar> < 2 ^ (e + 1)\<close>, and the doubles near \<open>x\<close> are the multiples of
  \<open>2 ^ (e - 52)\<close>. Overflow and subnormal numbers are not modelled; the frequencies
  are far from both.
\<close>

definition round_half_even :: "real \<Rightarrow> int" where
  "round_half_even x =
     (let f = \<lfloor>x\<rfloor>; r = x - real_of_int f in
      if r < 1 / 2 then f else if r > 1 / 2 then f + 1 else if even f then f else f + 1)"

fun ilog2 :: "nat \<Rightarrow> nat" where
  "ilog2 n = (if n < 2 then 0 else Suc (ilog2 (n div 2)))"

definition float_exponent :: "real \<Rightarrow> int" where
  "float_exponent x =
     (if \<bar>x\<bar> \<ge> 1 then int (ilog2 (nat \<lfloor>\<bar>x\<bar>\<rfloor>))
      else (let y = 1 / \<bar>x\<bar>; k = ilog2 (nat \<lfloor>y\<rfloor>) in
            if y = 2 ^ k then - int k else - int k - 1))"

definition to_double :: "real \<Rightarrow> real" where
  "to_double x =
     (if x = 0 then 0
      else (let j = 52 - float_exponent x in
            if j \<ge> 0 then real_of_int (round_half_even (x * 2 ^ nat j)) / 2 ^ nat j
            else real_of_int (round_half_even (x / 2 ^ nat (- j))) * 2 ^ nat (- j)))"

definition float_add :: "real \<Rightarrow> real \<Rightarrow> real" where
  "float_add x y = to_double (x + y)"

subsection \<open>\<^verbatim>\<open>RigControl.track_freqs\<close>\<close>

text \<open>
  The uplink frequency that corresponds to the downlink: \<^verbatim>\<open>df\<close> and \<^verbatim>\<open>self.fup\<close>.
\<close>

definition track_freqs_uplink :: "transponder \<Rightarrow> real \<Rightarrow> real \<times> real" where
  "track_freqs_uplink tr fd =
     (let df = fd - real_of_int (fdn1 tr) in
      if Inverting tr then (df, real_of_int (fup2 tr) - df)
      else (df, real_of_int (fup1 tr) + df))"

text \<open>
  The new rotor position: the satellite's position above the horizon, the first point
  of the track below it (\<^verbatim>\<open>gui.track_az[0]\<close> raises on an empty track), then the flip.
\<close>

definition track_freqs_new_pos :: "gui_state \<Rightarrow> real \<Rightarrow> real \<Rightarrow> py_error + real \<times> real" where
  "track_freqs_new_pos gui az el =
     (case (if el \<ge> 0 then Inr (az, el)
            else (case track_az gui of [] \<Rightarrow> Inl IndexError | a # rest \<Rightarrow> Inr (a, 0))) of
        Inl e \<Rightarrow> Inl e
      | Inr (a, e) \<Rightarrow>
          if flipper gui then
            (if a < 180 then Inr (a + 180, 180 - e) else Inr (a - 180, 180 - e))
          else Inr (a, e))"

text \<open>
  The rotor update: the position read, the pointing errors, the command issued (if any)
  and \<^verbatim>\<open>rotor_updated\<close>.
\<close>

definition track_freqs_rotor ::
  "env \<Rightarrow> gui_state \<Rightarrow> bool \<Rightarrow> real \<times> real \<Rightarrow>
     (real \<times> real) option \<times> (real \<times> real) option \<times> command list \<times> bool" where
  "track_freqs_rotor P gui Force new_pos =
     (if sock2_active P then
        (let pos = get_position P;
             daz = fst pos - fst new_pos;
             de = snd pos - snd new_pos
         in if (\<bar>daz\<bar> > ROTOR_THRESH \<or> \<bar>de\<bar> > ROTOR_THRESH) \<and> (rig_engaged gui \<or> Force)
            then (Some pos, Some (daz, de), [set_position (fst new_pos) (snd new_pos)], True)
            else (Some pos, Some (daz, de), [], False))
      else (None, None, [], False))"

text \<open>
  The whole method. The result is the control object as the call leaves it, the device
  commands issued in order, and the exception that ended the call, if any.
\<close>

definition track_freqs ::
  "env \<Rightarrow> gui_state \<Rightarrow> bool \<Rightarrow> rig_control \<Rightarrow> rig_control \<times> command list \<times> py_error option" where
  "track_freqs P gui Force self =
     (case transp_cur self of
        None \<Rightarrow> (self, [], Some (AttributeError ''transp''))
      | Some tr \<Rightarrow>
     (case fdown self of
        None \<Rightarrow> (self, [], Some TypeError)
      | Some fd \<Rightarrow>
     (case track_freqs_uplink tr fd of (df, fu) \<Rightarrow>
     (case Doppler_Shifts (observe P) fd fu of (d1, d2, az, el) \<Rightarrow>
     (let self1 = self\<lparr>fup := Some fu, fdop1 := Some d1\<rparr> in
      case vfos self of
        None \<Rightarrow> (self1, [], Some (AttributeError ''vfos''))
      | Some vs \<Rightarrow>
     (let fB = py_int (float_add (float_add fu d2) (real_of_int (xit gui)));
          self2 = (if length vs > 1 then self1\<lparr>frqB := Some fB\<rparr> else self1);
          cmdB = (if length vs > 1 \<and> (rig_engaged gui \<or> Force)
                  then [set_freq (real_of_int fB / 1000) (vs ! 1)] else []);
          fA = py_int (float_add (float_add fd d1) (real_of_int (rit gui)));
          self3 = self2\<lparr>frqA := fA\<rparr>
      in
      if (rig_engaged gui \<or> Force) \<and> vs = [] then (self3, cmdB, Some IndexError)
      else
     (let cmdA = (if rig_engaged gui \<or> Force
                  then set_freq (real_of_int fA / 1000) (hd vs) #
                       (if USE_SDR P then [sdr_set_freq (real_of_int fA / 1000)] else [])
                  else [])
      in
      case track_freqs_new_pos gui az el of
        Inl e \<Rightarrow> (self3, cmdB @ cmdA, Some e)
      | Inr new_pos \<Rightarrow>
     (case track_freqs_rotor P gui Force new_pos of (pos, err, cmdR, rotor_updated) \<Rightarrow>
     (let cmds = cmdB @ cmdA @ cmdR @ [recorder (el > 0)] in
      case frqB self3 of
        None \<Rightarrow> (self3, cmds, Some (AttributeError ''frqB''))
      | Some fB' \<Rightarrow>
          (self3\<lparr>fp_log := fp_log self3 @
             [\<lparr>row_Selected = Selected gui, row_fup = fu, row_fdown = fd, row_df = df,
               row_fdop1 = d1, row_fdop2 = d2, row_frqA = fA, row_frqB = fB',
               row_az = az, row_el = el,
               row_pos0 = map_option fst pos, row_pos1 = map_option snd pos,
               row_new_pos0 = fst new_pos, row_new_pos1 = snd new_pos,
               row_daz = map_option fst err, row_de = map_option snd err,
               row_flipper = flipper gui, row_rig_engaged = rig_engaged gui,
               row_rotor_updated = rotor_updated\<rparr>]\<rparr>,
           cmds, None))))))))))"

subsection \<open>\<^verbatim>\<open>RigControl.set_rig_mode\<close> and \<^verbatim>\<open>RigControl.Updater\<close>\<close>

definition set_rig_mode :: "transponder \<Rightarrow> string list \<Rightarrow> string \<Rightarrow> command list" where
  "set_rig_mode tr vs m =
     (let filt = (if take 2 m = ''CW'' then Some ''Wide'' else None) in
      set_mode m (hd vs) (Filter filt) #
      (if length vs > 1 then
         (if Inverting tr then
            (if m = ''USB'' then [set_mode ''LSB'' (vs ! 1) NotGiven]
             else if m = ''LSB'' then [set_mode ''USB'' (vs ! 1) NotGiven]
             else if m = ''CW'' then [set_mode ''CW-R'' (vs ! 1) (Filter filt)]
             else if m = ''CW-R'' then [set_mode ''CW'' (vs ! 1) (Filter filt)]
             else [])
          else [set_mode m (vs ! 1) (Filter filt)])
       else []))"

definition MODES :: "string list" where
  "MODES = [''USB'', ''LSB'', ''CW'', ''FM'']"

text \<open>
  The rig is put into satellite mode and the VFO names chosen by rig type; an unknown
  rig ends the program.
\<close>

definition sat_mode_vfos :: "string option \<Rightarrow> py_error + command list \<times> string list" where
  "sat_mode_vfos rig =
     (if rig = Some ''FT991a'' then Inr ([split_mode 1], [''A'', ''B''])
      else if rig = Some ''IC9700'' then Inr ([sat_mode 1], [''M'', ''S''])
      else if rig = Some ''pySDR'' then Inr ([], [''A''])
      else if rig = None \<or> rig = Some ''Dummy'' then Inr ([], [''A'', ''B''])
      else Inl SystemExit)"

text \<open>
  Python's truth value of \<^verbatim>\<open>gui.Selected\<close>: \<^verbatim>\<open>None\<close> and the empty string are false.
\<close>

definition truthy :: "string option \<Rightarrow> bool" where
  "truthy v \<longleftrightarrow> v \<noteq> None \<and> v \<noteq> Some []"

text \<open>
  The branch of \<^verbatim>\<open>Updater\<close> for a newly selected satellite: the main transponder is
  looked up, the rig set up, the downlink put at the centre of the passband and the
  frequencies tracked once.
\<close>

definition Updater_new_sat ::
  "env \<Rightarrow> gui_state \<Rightarrow> rig_control \<Rightarrow>
     gui_state \<times> rig_control \<times> command list \<times> py_error option" where
  "Updater_new_sat P gui self =
     (case Satellites gui (the (Selected gui)) of
        None \<Rightarrow> (gui, self, [], Some (KeyError (the (Selected gui))))
      | Some sat \<Rightarrow>
     (case (case main sat of None \<Rightarrow> None | Some m \<Rightarrow> map_of (transponders sat) m) of
        None \<Rightarrow> (gui, self, [], Some (KeyError (case main sat of None \<Rightarrow> ''None'' | Some m \<Rightarrow> m)))
      | Some tr \<Rightarrow>
     (let self1 = self\<lparr>transp_cur := Some tr\<rparr> in
      case sat_mode_vfos (rig_type2 P) of
        Inl e \<Rightarrow> (gui, self1, [], Some e)
      | Inr (cmd1, vs) \<Rightarrow>
     (let self2 = self1\<lparr>vfos := Some vs\<rparr>;
          cmd2 = (if rig_type2 P = Some ''IC9700'' then
                    (let frq1 = py_int (get_freq P (hd vs));
                         band1 = get_band P (real_of_int frq1 / 10 ^ 6);
                         frq2 = fdn1 tr;
                         band2 = get_band P (real_of_int frq2 / 10 ^ 6)
                     in if band1 \<noteq> band2 then [select_vfo ''X''] else [])
                  else []);
          cmd3 = set_rig_mode tr vs (mode tr)
      in
      if mode tr \<notin> set MODES then (gui, self2, cmd1 @ cmd2 @ cmd3, Some ValueError)
      else
     (let self3 = self2\<lparr>fdown := Some (real_of_int (fdn1 tr + fdn2 tr) / 2)\<rparr> in
      case track_freqs P gui False self3 of
        (self4, cmd4, Some e) \<Rightarrow> (gui, self4, cmd1 @ cmd2 @ cmd3 @ cmd4, Some e)
      | (self4, cmd4, None) \<Rightarrow>
          (gui\<lparr>New_Sat_Selection := False\<rparr>, self4, cmd1 @ cmd2 @ cmd3 @ cmd4, None))))))"

text \<open>
  The other branch: the main dial is read, the downlink moved if the operator has
  spun the dial, and the frequencies tracked. The AOS/LOS text that \<^verbatim>\<open>Updater\<close>
  refreshes at its end is display only and is left out, as are the other widget
  updates.
\<close>

definition Updater_retune :: "env \<Rightarrow> rig_control \<Rightarrow> py_error + rig_control" where
  "Updater_retune P self =
     (case vfos self of
        None \<Rightarrow> Inl (AttributeError ''vfos'')
      | Some [] \<Rightarrow> Inl IndexError
      | Some (v0 # rest) \<Rightarrow>
          (let frq = py_int (get_freq P v0) in
           if frq > 0 \<and> frq \<noteq> frqA self then
             (case fdop1 self of
                None \<Rightarrow> Inl (AttributeError ''fdop1'')
              | Some d \<Rightarrow> Inr (self\<lparr>fdown := Some (real_of_int frq - d), frqA := frq\<rparr>))
           else Inr self))"

definition Updater ::
  "env \<Rightarrow> gui_state \<Rightarrow> rig_control \<Rightarrow>
     gui_state \<times> rig_control \<times> command list \<times> py_error option" where
  "Updater P gui self =
     (if (rig_engaged gui \<or> fdown self = None) \<and> truthy (Selected gui) then
        (if New_Sat_Selection gui then Updater_new_sat P gui self
         else
           (case Updater_retune P self of
              Inl e \<Rightarrow> (gui, self, [], Some e)
            | Inr self1 \<Rightarrow>
                (case track_freqs P gui False self1 of
                   (self2, cmds, err) \<Rightarrow> (gui, self2, cmds, err))))
      else (gui, self, [], None))"

text \<open>
  The name test as one predicate of the section name, for comparison with the loop.
\<close>

definition is_main_candidate :: "string \<Rightarrow> bool" where
  "is_main_candidate n \<longleftrightarrow>
     \<not> (str_in ''PE0SAT'' (upper n) \<or> str_in ''L/V'' (upper n)) \<and>
     (str_in ''FM VOICE'' (upper n) \<or> str_in ''TRANSPONDER'' (upper n) \<or>
      str_in ''TRANSPODER'' (upper n) \<or>
      upper n \<in> {''MODE U/V (B) LIN'', ''MODE U/V LINEAR'', ''MODE V/U FM''})"

text \<open>A transponder file with a beacon, an inverting linear transponder and an FM one.\<close>

definition beacon_items :: config_section where
  "beacon_items = [''down_low'' \<mapsto> ''145940000'', ''mode'' \<mapsto> ''CW'']"

definition linear_items :: config_section where
  "linear_items = [''down_low'' \<mapsto> ''145925000'', ''down_high'' \<mapsto> ''145975000'',
                   ''up_low'' \<mapsto> ''432125000'', ''up_high'' \<mapsto> ''432175000'',
                   ''invert'' \<mapsto> ''true'', ''mode'' \<mapsto> ''USB'']"

definition fm_items :: config_section where
  "fm_items = [''down_low'' \<mapsto> ''435000000'', ''up_low'' \<mapsto> ''145850000'',
               ''invert'' \<mapsto> ''True'', ''mode'' \<mapsto> ''FM'']"

definition example_config :: "(string \<times> config_section) list" where
  "example_config = [(''Mode U/V CW Beacon'', beacon_items),
                     (''Mode U/V (B) LIN'', linear_items),
                     (''Mode V/U FM Voice'', fm_items)]"

text \<open>
  The control object as \<^verbatim>\<open>RigControl.__init__\<close> leaves it.
\<close>

definition RigControl_init :: rig_control where
  "RigControl_init =
     \<lparr>fdown = None, frqA = 0, frqB = None, fup = None, fdop1 = None, vfos = None,
      transp_cur = None, fp_log = []\<rparr>"

text \<open>The commands that set a frequency or a rotor position.\<close>

definition tunes :: "command \<Rightarrow> bool" where
  "tunes c =
     (case c of
        set_freq f v \<Rightarrow> True
      | sdr_set_freq f \<Rightarrow> True
      | set_position a e \<Rightarrow> True
      | _ \<Rightarrow> False)"

text \<open>
  A tracking state on the inverting linear transponder, engaged, with the rotor
  5 and 3 degrees off the satellite.
\<close>

definition example_transp :: transponder where
  "example_transp =
     \<lparr>fdn1 = 145925000, fdn2 = 145975000, fup1 = 432125000, fup2 = 432175000,
      Inverting = True, mode = ''USB''\<rparr>"

definition example_sat :: satellite where
  "example_sat =
     \<lparr>main = Some ''Mode U/V (B) LIN'', warnings = 0,
      transponders = [(''Mode U/V (B) LIN'', example_transp)]\<rparr>"

definition example_gui :: gui_state where
  "example_gui =
     \<lparr>Selected = Some ''AO-07'', New_Sat_Selection = False, flipper = False, rit = 0, xit = 0,
      rig_engaged = True, track_az = [100, 170, 190, 260],
      Satellites = [''AO-07'' \<mapsto> example_sat]\<rparr>"

definition example_env :: env where
  "example_env =
     \<lparr>rig_type2 = Some ''FT991a'', USE_SDR = False, get_freq = (\<lambda>v. 145951459),
      get_band = (\<lambda>f. if f < 300 then ''2m'' else ''70cm''),
      sock2_active = True, get_position = (115, 27),
      observe = \<lparr>doppler = 1000, azimuth = 120, elevation = 30\<rparr>\<rparr>"

definition example_ctrl :: rig_control where
  "example_ctrl =
     \<lparr>fdown = Some 145950000, frqA = 145951459, frqB = Some 432145678,
      fup = Some 432150000, fdop1 = Some (2919 / 2), vfos = Some [''A'', ''B''],
      transp_cur = Some example_transp, fp_log = []\<rparr>"

subsection \<open>Properties of the flip decision\<close>

lemma flip_scan_min2:
  "fst (flip_scan az m x) = Min (insert m (set (filter quad2 az)))"
proof (induction az arbitrary: m x)
  case Nil
  show ?case by simp
next
  case (Cons a az)
  have "Min (insert m (insert a (set (filter quad2 az)))) =
        Min (insert (min m a) (set (filter quad2 az)))"
    by (cases "set (filter quad2 az) = {}") (simp_all add: min.assoc)
  with Cons show ?case by simp
qed

lemma flip_scan_max3:
  "snd (flip_scan az m x) = Max (insert x (set (filter quad3 az)))"
proof (induction az arbitrary: m x)
  case Nil
  show ?case by simp
next
  case (Cons a az)
  have "Max (insert x (insert a (set (filter quad3 az)))) =
        Max (insert (max x a) (set (filter quad3 az)))"
    by (cases "set (filter quad3 az) = {}") (simp_all add: max.assoc)
  moreover have "quad2 a \<Longrightarrow> \<not> quad3 a"
    by (simp add: quad2_def quad3_def)
  ultimately show ?case using Cons by simp
qed

lemma min2_drop_init:
  assumes "list_ex quad2 az"
  shows "Min (insert 360 (set (filter quad2 az))) = Min (set (filter quad2 az))"
proof -
  let ?S = "set (filter quad2 az)"
  from assms have ne: "?S \<noteq> {}"
    by (auto simp: list_ex_iff filter_empty_conv)
  have "Min ?S \<in> ?S" using ne by (intro Min_in) simp_all
  then have "Min ?S < 360" by (simp add: quad2_def)
  moreover have "Min (insert 360 ?S) = min 360 (Min ?S)"
    using ne by (intro Min_insert) simp_all
  ultimately show ?thesis by simp
qed

lemma max3_drop_init:
  assumes "list_ex quad3 az"
  shows "Max (insert 0 (set (filter quad3 az))) = Max (set (filter quad3 az))"
proof -
  let ?S = "set (filter quad3 az)"
  from assms have ne: "?S \<noteq> {}"
    by (auto simp: list_ex_iff filter_empty_conv)
  have "Max ?S \<in> ?S" using ne by (intro Max_in) simp_all
  then have "0 < Max ?S" by (simp add: quad3_def)
  moreover have "Max (insert 0 ?S) = max 0 (Max ?S)"
    using ne by (intro Max_insert) simp_all
  ultimately show ?thesis by simp
qed

text \<open>
  C1. The flip decision is true exactly when the track has a sample in quadrant 2
  (90 < az < 180) and a sample in quadrant 3 (180 < az < 270), and neither the largest
  quadrant-3 azimuth is below 195 nor the smallest quadrant-2 azimuth above 165; the
  track 100, 170, 190, 260 needs the flip.
\<close>

theorem flip_decision:
  "(plot_sky_track_flipper az \<longleftrightarrow>
      (\<exists>a \<in> set az. 90 < a \<and> a < 180) \<and> (\<exists>a \<in> set az. 180 < a \<and> a < 270) \<and>
      \<not> (Max (set (filter (\<lambda>a. 180 < a \<and> a < 270) az)) < 195 \<or>
         Min (set (filter (\<lambda>a. 90 < a \<and> a < 180) az)) > 165))
   \<and> plot_sky_track_flipper [100, 170, 190, 260]"
proof
  have q2: "quad2 = (\<lambda>a. 90 < a \<and> a < 180)" and q3: "quad3 = (\<lambda>a. 180 < a \<and> a < 270)"
    by (auto simp: quad2_def quad3_def fun_eq_iff)
  show "plot_sky_track_flipper az \<longleftrightarrow>
      (\<exists>a \<in> set az. 90 < a \<and> a < 180) \<and> (\<exists>a \<in> set az. 180 < a \<and> a < 270) \<and>
      \<not> (Max (set (filter (\<lambda>a. 180 < a \<and> a < 270) az)) < 195 \<or>
         Min (set (filter (\<lambda>a. 90 < a \<and> a < 180) az)) > 165)"
  proof (cases "list_ex quad2 az \<and> list_ex quad3 az")
    case False
    then show ?thesis
      by (auto simp: plot_sky_track_flipper_def Let_def list_ex_iff quad2_def quad3_def)
  next
    case True
    obtain m x where sc: "flip_scan az 360 0 = (m, x)" by (cases "flip_scan az 360 0")
    have m: "m = Min (set (filter quad2 az))"
      using flip_scan_min2 [of az 360 0] sc min2_drop_init True by simp
    have x: "x = Max (set (filter quad3 az))"
      using flip_scan_max3 [of az 360 0] sc max3_drop_init True by simp
    have ex: "(\<exists>a \<in> set az. 90 < a \<and> a < 180) \<and> (\<exists>a \<in> set az. 180 < a \<and> a < 270)"
      using True by (simp add: list_ex_iff quad2_def quad3_def)
    show ?thesis
      using True ex by (simp add: plot_sky_track_flipper_def Let_def sc m x THRESH_def q2 q3)
  qed
  show "plot_sky_track_flipper [100, 170, 190, 260]"
    by (simp add: plot_sky_track_flipper_def Let_def quad2_def quad3_def THRESH_def)
qed

theorem flip_decision_witness:
  "plot_sky_track_flipper [100, 170, 190, 260] \<and>
   (\<exists>a \<in> set [100, 170, 190, 260 :: real]. 90 < a \<and> a < 180) \<and>
   (\<exists>a \<in> set [100, 170, 190, 260 :: real]. 180 < a \<and> a < 270) \<and>
   \<not> plot_sky_track_flipper [100, 170, 190]"
  using flip_decision [of "[100, 170, 190, 260]"] flip_decision [of "[100, 170, 190]"]
  by simp

subsection \<open>Properties of the transponder table\<close>

lemma name_fits_nonempty: "name_fits (upper n) \<Longrightarrow> n \<noteq> []"
  by (auto simp: name_fits_def upper_def)

lemma flag_main_step:
  "flag_main n (m, w) =
     (if is_main_candidate n
      then (if m = None \<or> m = Some [] then (Some n, w) else (m, Suc w))
      else (m, w))"
  by (auto simp: flag_main_def is_main_candidate_def name_excluded_def name_fits_def Let_def)

lemma fits_nonempty: "is_main_candidate n \<Longrightarrow> n \<noteq> []"
  using name_fits_nonempty [of n]
  by (auto simp: is_main_candidate_def name_fits_def)

lemma fold_flag_main_set:
  "m \<noteq> [] \<Longrightarrow> fold flag_main ns (Some m, w) = (Some m, w + length (filter is_main_candidate ns))"
  by (induction ns arbitrary: w) (simp_all add: flag_main_step)

lemma fold_flag_main_unset:
  "fold flag_main ns (None, w) =
     (case filter is_main_candidate ns of [] \<Rightarrow> (None, w) | n # r \<Rightarrow> (Some n, w + length r))"
proof (induction ns)
  case Nil
  show ?case by simp
next
  case (Cons n ns)
  show ?case
  proof (cases "is_main_candidate n")
    case True
    then show ?thesis
      by (simp add: flag_main_step fold_flag_main_set fits_nonempty)
  next
    case False
    then show ?thesis using Cons by (simp add: flag_main_step)
  qed
qed

lemma loop_flags:
  "get_transponders_loop config sat = Inr sat' \<Longrightarrow>
     (main sat', warnings sat') = fold flag_main (map fst config) (main sat, warnings sat)"
proof (induction config arbitrary: sat)
  case Nil
  then show ?case by auto
next
  case (Cons a config)
  obtain n items where a: "a = (n, items)" by (cases a)
  from Cons.prems obtain t where t: "section_items items = Inr t"
    by (auto simp: a split: sum.splits)
  obtain m w where mw: "flag_main n (main sat, warnings sat) = (m, w)"
    by (cases "flag_main n (main sat, warnings sat)")
  let ?sat1 = "sat\<lparr>main := m, warnings := w, transponders := transponders sat @ [(n, t)]\<rparr>"
  from Cons.prems have run: "get_transponders_loop config ?sat1 = Inr sat'"
    by (simp add: a t mw)
  from Cons.IH [OF run] show ?case by (simp add: a mw)
qed

lemma loop_transponders:
  "get_transponders_loop config sat = Inr sat' \<Longrightarrow>
     \<exists>ts. transponders sat' = transponders sat @ ts \<and>
          list_all2 (\<lambda>(n, items) (n', t). n' = n \<and> section_items items = Inr t) config ts"
proof (induction config arbitrary: sat)
  case Nil
  then show ?case by auto
next
  case (Cons a config)
  obtain n items where a: "a = (n, items)" by (cases a)
  from Cons.prems obtain t where t: "section_items items = Inr t"
    by (auto simp: a split: sum.splits)
  obtain m w where mw: "flag_main n (main sat, warnings sat) = (m, w)"
    by (cases "flag_main n (main sat, warnings sat)")
  let ?sat1 = "sat\<lparr>main := m, warnings := w, transponders := transponders sat @ [(n, t)]\<rparr>"
  from Cons.prems have run: "get_transponders_loop config ?sat1 = Inr sat'"
    by (simp add: a t mw)
  from Cons.IH [OF run] obtain ts where
    ts: "transponders sat' = (transponders sat @ [(n, t)]) @ ts"
      "list_all2 (\<lambda>(n, items) (n', t). n' = n \<and> section_items items = Inr t) config ts"
    by auto
  have "transponders sat' = transponders sat @ ((n, t) # ts)"
    using ts(1) by simp
  moreover have "list_all2 (\<lambda>(n, items) (n', t). n' = n \<and> section_items items = Inr t)
                   (a # config) ((n, t) # ts)"
    using ts(2) by (simp add: a t)
  ultimately show ?case by blast
qed

lemma loop_total:
  "list_all (\<lambda>(n, items). \<exists>t. section_items items = Inr t) config \<Longrightarrow>
     \<exists>sat'. get_transponders_loop config sat = Inr sat'"
proof (induction config arbitrary: sat)
  case Nil
  show ?case by simp
next
  case (Cons a config)
  obtain n items where a: "a = (n, items)" by (cases a)
  from Cons.prems obtain t where t: "section_items items = Inr t"
    by (auto simp: a)
  from Cons.prems have rest: "list_all (\<lambda>(n, items). \<exists>t. section_items items = Inr t) config"
    by simp
  show ?case
    using Cons.IH [OF rest] by (simp add: a t split: prod.splits)
qed

lemma section_items_fields:
  assumes "section_items items = Inr t"
  shows "(case items ''down_low'' of None \<Rightarrow> False | Some v \<Rightarrow> int_of_str v = Inr (fdn1 t))"
    and "(case items ''down_high'' of None \<Rightarrow> fdn2 t = fdn1 t
          | Some v \<Rightarrow> int_of_str v = Inr (fdn2 t))"
    and "(case items ''up_low'' of None \<Rightarrow> fup1 t = 0 | Some v \<Rightarrow> int_of_str v = Inr (fup1 t))"
    and "(case items ''up_high'' of None \<Rightarrow> fup2 t = fup1 t
          | Some v \<Rightarrow> int_of_str v = Inr (fup2 t))"
    and "Inverting t \<longleftrightarrow> items ''invert'' = Some ''true''"
    and "items ''mode'' = Some (mode t)"
  using assms
  by (auto simp: section_items_def opt_int_def Let_def split: option.splits sum.splits)

text \<open>
  C10. Every transponder stored by \<^verbatim>\<open>get_transponders\<close> has \<open>fdn1\<close> read from
  \<^verbatim>\<open>down_low\<close>, \<open>fdn2\<close> from \<^verbatim>\<open>down_high\<close> or else equal to \<open>fdn1\<close>, \<open>fup1\<close> from
  \<^verbatim>\<open>up_low\<close> or else 0, \<open>fup2\<close> from \<^verbatim>\<open>up_high\<close> or else equal to \<open>fup1\<close>, and
  \<open>Inverting\<close> true exactly when \<^verbatim>\<open>invert\<close> is the string \<^verbatim>\<open>true\<close>; the uplink edges
  are never swapped, whatever the flag.
\<close>

theorem stored_transponder_fields:
  assumes "get_transponders config = Inr sat"
  shows "list_all2
           (\<lambda>(n, items) (n', t). n' = n \<and>
              (case items ''down_low'' of None \<Rightarrow> False
               | Some v \<Rightarrow> int_of_str v = Inr (fdn1 t)) \<and>
              (case items ''down_high'' of None \<Rightarrow> fdn2 t = fdn1 t
               | Some v \<Rightarrow> int_of_str v = Inr (fdn2 t)) \<and>
              (case items ''up_low'' of None \<Rightarrow> fup1 t = 0
               | Some v \<Rightarrow> int_of_str v = Inr (fup1 t)) \<and>
              (case items ''up_high'' of None \<Rightarrow> fup2 t = fup1 t
               | Some v \<Rightarrow> int_of_str v = Inr (fup2 t)) \<and>
              (Inverting t \<longleftrightarrow> items ''invert'' = Some ''true''))
           config (transponders sat)"
proof -
  from assms have run:
    "get_transponders_loop config \<lparr>main = None, warnings = 0, transponders = []\<rparr> = Inr sat"
    by (simp add: get_transponders_def)
  from loop_transponders [OF run]
  have "list_all2 (\<lambda>(n, items) (n', t). n' = n \<and> section_items items = Inr t)
          config (transponders sat)"
    by simp
  then show ?thesis
    by (rule list_all2_mono) (clarsimp simp: section_items_fields)
qed

text \<open>
  C9. When every section of the file parses, the table is built, and the main
  transponder is the first section name, in file order, that is not excluded (its
  upper-cased name has neither \<^verbatim>\<open>PE0SAT\<close> nor \<^verbatim>\<open>L/V\<close>) and fits the criteria (its
  upper-cased name has \<^verbatim>\<open>FM VOICE\<close>, \<^verbatim>\<open>TRANSPONDER\<close> or \<^verbatim>\<open>TRANSPODER\<close>, or is one of
  the three linear-transponder labels); every later fitting name only adds a printed
  warning; with no fitting name the main transponder stays \<^verbatim>\<open>None\<close>.
\<close>

theorem main_transponder_selection:
  assumes "list_all (\<lambda>(n, items). \<exists>t. section_items items = Inr t) config"
  shows "\<exists>sat. get_transponders config = Inr sat \<and>
           main sat = (case filter is_main_candidate (map fst config) of
                         [] \<Rightarrow> None | n # later \<Rightarrow> Some n) \<and>
           warnings sat = length (filter is_main_candidate (map fst config)) - 1"
proof -
  from loop_total [OF assms] obtain sat where
    sat: "get_transponders config = Inr sat"
    by (auto simp: get_transponders_def)
  define cs where "cs = filter is_main_candidate (map fst config)"
  from sat have "(main sat, warnings sat) = fold flag_main (map fst config) (None, 0)"
    using loop_flags [of config _ sat] by (simp add: get_transponders_def)
  then have "(main sat, warnings sat) =
               (case cs of [] \<Rightarrow> (None, 0) | n # r \<Rightarrow> (Some n, 0 + length r))"
    unfolding cs_def fold_flag_main_unset .
  then have "main sat = (case cs of [] \<Rightarrow> None | n # later \<Rightarrow> Some n)"
    and "warnings sat = length cs - 1"
    by (cases cs; simp)+
  then have "main sat = (case filter is_main_candidate (map fst config) of
                         [] \<Rightarrow> None | n # later \<Rightarrow> Some n)"
    and "warnings sat = length (filter is_main_candidate (map fst config)) - 1"
    unfolding cs_def by blast+
  with sat show ?thesis by blast
qed

lemma example_ints:
  "int_of_str ''145940000'' = Inr 145940000"
  "int_of_str ''145925000'' = Inr 145925000"
  "int_of_str ''145975000'' = Inr 145975000"
  "int_of_str ''432125000'' = Inr 432125000"
  "int_of_str ''432175000'' = Inr 432175000"
  "int_of_str ''435000000'' = Inr 435000000"
  "int_of_str ''145850000'' = Inr 145850000"
  by (simp_all add: int_of_str_def strip_def is_space_def nat_of_str_def is_digit_def
      digit_val_def)

lemma example_sections:
  "section_items beacon_items =
     Inr \<lparr>fdn1 = 145940000, fdn2 = 145940000, fup1 = 0, fup2 = 0, Inverting = False,
          mode = ''CW''\<rparr>"
  "section_items linear_items =
     Inr \<lparr>fdn1 = 145925000, fdn2 = 145975000, fup1 = 432125000, fup2 = 432175000,
          Inverting = True, mode = ''USB''\<rparr>"
  "section_items fm_items =
     Inr \<lparr>fdn1 = 435000000, fdn2 = 435000000, fup1 = 145850000, fup2 = 145850000,
          Inverting = False, mode = ''FM''\<rparr>"
  by (simp_all add: section_items_def opt_int_def beacon_items_def linear_items_def
      fm_items_def example_ints)

lemma example_names:
  "\<not> is_main_candidate ''Mode U/V CW Beacon''"
  "is_main_candidate ''Mode U/V (B) LIN''"
  "is_main_candidate ''Mode V/U FM Voice''"
  by (simp_all add: is_main_candidate_def upper_def upper_char_def)

lemma example_flags:
  "flag_main ''Mode U/V CW Beacon'' (m, w) = (m, w)"
  "flag_main ''Mode U/V (B) LIN'' (None, w) = (Some ''Mode U/V (B) LIN'', w)"
  "flag_main ''Mode V/U FM Voice'' (Some ''Mode U/V (B) LIN'', w) =
     (Some ''Mode U/V (B) LIN'', Suc w)"
  using example_names by (simp_all add: flag_main_step)

lemma example_run:
  "get_transponders example_config =
     Inr \<lparr>main = Some ''Mode U/V (B) LIN'', warnings = 1,
          transponders =
            [(''Mode U/V CW Beacon'',
              \<lparr>fdn1 = 145940000, fdn2 = 145940000, fup1 = 0, fup2 = 0, Inverting = False,
               mode = ''CW''\<rparr>),
             (''Mode U/V (B) LIN'',
              \<lparr>fdn1 = 145925000, fdn2 = 145975000, fup1 = 432125000, fup2 = 432175000,
               Inverting = True, mode = ''USB''\<rparr>),
             (''Mode V/U FM Voice'',
              \<lparr>fdn1 = 435000000, fdn2 = 435000000, fup1 = 145850000, fup2 = 145850000,
               Inverting = False, mode = ''FM''\<rparr>)]\<rparr>"
  by (simp add: get_transponders_def example_config_def example_sections example_flags)

theorem main_transponder_selection_witness:
  "list_all (\<lambda>(n, items). \<exists>t. section_items items = Inr t) example_config \<and>
   (\<exists>sat. get_transponders example_config = Inr sat \<and>
      main sat = Some ''Mode U/V (B) LIN'' \<and> warnings sat = 1)"
proof -
  have h: "list_all (\<lambda>(n, items). \<exists>t. section_items items = Inr t) example_config"
    by (simp add: example_config_def example_sections)
  have "filter is_main_candidate (map fst example_config) =
          [''Mode U/V (B) LIN'', ''Mode V/U FM Voice'']"
    by (simp add: example_config_def example_names)
  with main_transponder_selection [OF h] h show ?thesis by simp
qed

theorem stored_transponder_fields_witness:
  "get_transponders example_config \<noteq> Inl ValueError \<and>
   (\<exists>sat. get_transponders example_config = Inr sat \<and>
      map (fdn2 \<circ> snd) (transponders sat) = [145940000, 145975000, 435000000] \<and>
      map (Inverting \<circ> snd) (transponders sat) = [False, True, False])"
  using stored_transponder_fields [OF example_run] example_run by simp

subsection \<open>Properties of the float sums\<close>

declare ilog2.simps [simp del]

lemma ilog2_numeral [simp]:
  "ilog2 (numeral n) = (if (numeral n :: nat) < 2 then 0 else Suc (ilog2 (numeral n div 2)))"
  by (rule ilog2.simps)

lemma ilog2_small [simp]: "ilog2 0 = 0" "ilog2 1 = 0" "ilog2 (Suc 0) = 0"
  by (simp_all add: ilog2.simps)










subsection \<open>Properties of the tracking step\<close>


lemma track_freqs_attrs:
  assumes "transp_cur self = Some tr" and "fdown self = Some fd"
  shows "fdown (fst (track_freqs P gui Force self)) = Some fd"
    and "fup (fst (track_freqs P gui Force self)) = Some (snd (track_freqs_uplink tr fd))"
    and "fdop1 (fst (track_freqs P gui Force self)) = Some (1 / 10 ^ 8 * doppler (observe P) * fd)"
    and "transp_cur (fst (track_freqs P gui Force self)) = Some tr"
    and "vfos (fst (track_freqs P gui Force self)) = vfos self"
  using assms
  by (auto simp: track_freqs_def Doppler_Shifts_def Let_def
      split: option.splits prod.splits sum.splits)


lemma track_freqs_cmds:
  assumes "transp_cur self = Some tr" and "fdown self = Some fd" and "vfos self = Some vs"
    and "vs \<noteq> [] \<or> \<not> (rig_engaged gui \<or> Force)"
    and "track_freqs_new_pos gui (azimuth (observe P)) (elevation (observe P)) = Inr target"
  shows "fst (snd (track_freqs P gui Force self)) =
           (if length vs > 1 \<and> (rig_engaged gui \<or> Force)
            then [set_freq (real_of_int (the (frqB (fst (track_freqs P gui Force self)))) / 1000)
                    (vs ! 1)]
            else []) @
           (if rig_engaged gui \<or> Force
            then set_freq (real_of_int (frqA (fst (track_freqs P gui Force self))) / 1000) (hd vs) #
                 (if USE_SDR P
                  then [sdr_set_freq (real_of_int (frqA (fst (track_freqs P gui Force self))) / 1000)]
                  else [])
            else []) @
           fst (snd (snd (track_freqs_rotor P gui Force target))) @
           [recorder (elevation (observe P) > 0)]"
  using assms
  by (auto simp: track_freqs_def Doppler_Shifts_def Let_def
      split: option.splits prod.splits sum.splits)

lemma track_freqs_log:
  assumes "track_freqs P gui Force self = (self', cmds, None)"
  shows "\<exists>tr fd vs target row.
           transp_cur self = Some tr \<and> fdown self = Some fd \<and> vfos self = Some vs \<and>
           (vs \<noteq> [] \<or> \<not> (rig_engaged gui \<or> Force)) \<and>
           track_freqs_new_pos gui (azimuth (observe P)) (elevation (observe P)) = Inr target \<and>
           fp_log self' = fp_log self @ [row] \<and>
           row_new_pos0 row = fst target \<and> row_new_pos1 row = snd target \<and>
           row_rotor_updated row = snd (snd (snd (track_freqs_rotor P gui Force target))) \<and>
           row_frqA row = frqA self' \<and> Some (row_frqB row) = frqB self' \<and>
           Some (row_fdown row) = fdown self' \<and> Some (row_fup row) = fup self' \<and>
           Some (row_fdop1 row) = fdop1 self' \<and>
           row_rig_engaged row = rig_engaged gui \<and> row_flipper row = flipper gui"
  using assms
  by (auto simp: track_freqs_def Doppler_Shifts_def Let_def
      split: option.splits prod.splits sum.splits if_splits)





text \<open>
  C2. After \<^verbatim>\<open>track_freqs\<close> the uplink frequency is \<open>fup2 - (fdown - fdn1)\<close> for an
  inverting transponder and \<open>fup1 + (fdown - fdn1)\<close> otherwise: without inversion the
  uplink sits as far above \<open>fup1\<close> as the downlink above \<open>fdn1\<close>, and with inversion
  raising the downlink by \<open>delta\<close> lowers the uplink by \<open>delta\<close>.
\<close>

theorem uplink_from_downlink:
  assumes "transp_cur self = Some tr" and "fdown self = Some fd"
  shows "fup (fst (track_freqs P gui Force self)) =
           Some (if Inverting tr then real_of_int (fup2 tr) - (fd - real_of_int (fdn1 tr))
                 else real_of_int (fup1 tr) + (fd - real_of_int (fdn1 tr))) \<and>
         (\<not> Inverting tr \<longrightarrow>
            the (fup (fst (track_freqs P gui Force self))) - real_of_int (fup1 tr) =
            fd - real_of_int (fdn1 tr)) \<and>
         (Inverting tr \<longrightarrow>
            the (fup (fst (track_freqs P gui Force (self\<lparr>fdown := Some (fd + delta)\<rparr>)))) =
            the (fup (fst (track_freqs P gui Force self))) - delta)"
proof -
  have a: "fup (fst (track_freqs P gui Force self)) = Some (snd (track_freqs_uplink tr fd))"
    using assms by (rule track_freqs_attrs(2))
  have b: "fup (fst (track_freqs P gui Force (self\<lparr>fdown := Some (fd + delta)\<rparr>))) =
           Some (snd (track_freqs_uplink tr (fd + delta)))"
    by (rule track_freqs_attrs(2)) (simp_all add: assms)
  show ?thesis
    unfolding a b by (simp add: track_freqs_uplink_def Let_def)
qed

theorem uplink_from_downlink_witness:
  "fup (fst (track_freqs example_env example_gui False example_ctrl)) = Some 432150000 \<and>
   the (fup (fst (track_freqs example_env example_gui False
      (example_ctrl\<lparr>fdown := Some (145950000 + 5000)\<rparr>)))) = 432150000 - 5000"
  using uplink_from_downlink [of example_ctrl example_transp 145950000 example_env example_gui
      False 5000]
  by (simp add: example_ctrl_def example_transp_def)

text \<open>
  C3. The downlink shift is \<open>1e-8 * dop100 * fdown\<close>, the uplink shift the negative,
  \<open>-1e-8 * dop100 * fup\<close>, and the downlink shift at \<open>2f\<close> is twice the shift at \<open>f\<close>.
\<close>

theorem doppler_scaling:
  "Doppler_Shifts obs fd fu =
     (1 / 10 ^ 8 * doppler obs * fd, - (1 / 10 ^ 8 * doppler obs * fu),
      azimuth obs, elevation obs) \<and>
   fst (Doppler_Shifts obs (2 * f) fu) = 2 * fst (Doppler_Shifts obs f fu)"
  by (simp add: Doppler_Shifts_def Let_def)





lemma track_freqs_ok:
  assumes "transp_cur self = Some tr" and "fdown self = Some fd" and "vfos self = Some vs"
    and "vs \<noteq> [] \<or> \<not> (rig_engaged gui \<or> Force)"
    and "length vs > 1 \<or> frqB self \<noteq> None"
    and "track_freqs_new_pos gui (azimuth (observe P)) (elevation (observe P)) = Inr target"
  shows "snd (snd (track_freqs P gui Force self)) = None"
  using assms
  by (auto simp: track_freqs_def Doppler_Shifts_def Let_def
      split: option.splits prod.splits sum.splits)

text \<open>
  C6. Whenever the satellite is not below the horizon or the sky track has a first
  sample, the rotor target computed by \<^verbatim>\<open>track_freqs\<close> is the satellite's (az, el) when
  el is not negative and (first azimuth of the sky track, 0) otherwise, then mapped to
  (az + 180, 180 - el) below 180 degrees and (az - 180, 180 - el) from 180 degrees on
  when the flip is required, and left as it is when not; the call then completes, logs
  this target and commands no other position.
\<close>

theorem rotor_target:
  assumes "transp_cur self = Some tr" and "fdown self = Some fd" and "vfos self = Some vs"
    and "vs \<noteq> [] \<or> \<not> (rig_engaged gui \<or> Force)"
    and "length vs > 1 \<or> frqB self \<noteq> None"
    and "az = azimuth (observe P)" and "el = elevation (observe P)"
    and "el \<ge> 0 \<or> track_az gui \<noteq> []"
    and "unflipped = (if el \<ge> 0 then (az, el) else (hd (track_az gui), 0))"
    and "target = (if flipper gui
                   then (if fst unflipped < 180
                         then (fst unflipped + 180, 180 - snd unflipped)
                         else (fst unflipped - 180, 180 - snd unflipped))
                   else unflipped)"
  shows "track_freqs_new_pos gui az el = Inr target \<and>
         snd (snd (track_freqs P gui Force self)) = None \<and>
         row_new_pos0 (last (fp_log (fst (track_freqs P gui Force self)))) = fst target \<and>
         row_new_pos1 (last (fp_log (fst (track_freqs P gui Force self)))) = snd target \<and>
         (\<forall>a e. set_position a e \<in> set (fst (snd (track_freqs P gui Force self))) \<longrightarrow>
            (a, e) = target)"
proof -
  have np: "track_freqs_new_pos gui az el = Inr target"
    using assms(8) unfolding assms(9,10)
    by (auto simp: track_freqs_new_pos_def split: list.splits)
  then have np': "track_freqs_new_pos gui (azimuth (observe P)) (elevation (observe P)) =
                    Inr target"
    by (simp add: assms(6,7))
  have ok: "snd (snd (track_freqs P gui Force self)) = None"
    using assms(1-5) np' by (rule track_freqs_ok)
  then have r: "track_freqs P gui Force self =
                  (fst (track_freqs P gui Force self), fst (snd (track_freqs P gui Force self)),
                   None)"
    by (simp add: prod_eq_iff)
  from track_freqs_log [OF r] np' obtain row where
    lg: "fp_log (fst (track_freqs P gui Force self)) = fp_log self @ [row]"
      "row_new_pos0 row = fst target" "row_new_pos1 row = snd target"
    by auto
  have "\<forall>a e. set_position a e \<in> set (fst (snd (track_freqs P gui Force self))) \<longrightarrow>
          (a, e) = target"
    unfolding track_freqs_cmds [OF assms(1-4) np']
    by (auto simp: track_freqs_rotor_def Let_def)
  with np ok lg show ?thesis by simp
qed

theorem rotor_target_witness:
  "track_freqs_new_pos (example_gui\<lparr>flipper := True\<rparr>) 120 30 = Inr (300, 150) \<and>
   track_freqs_new_pos (example_gui\<lparr>flipper := True\<rparr>) 200 10 = Inr (20, 170) \<and>
   track_freqs_new_pos (example_gui\<lparr>flipper := True\<rparr>) 95 (- 5) = Inr (280, 180) \<and>
   track_freqs_new_pos example_gui 95 (- 5) = Inr (100, 0) \<and>
   track_freqs_new_pos example_gui 120 30 = Inr (120, 30) \<and>
   snd (snd (track_freqs
      (example_env\<lparr>observe := \<lparr>doppler = 1000, azimuth = 95, elevation = - 5\<rparr>\<rparr>)
      example_gui False example_ctrl)) = None \<and>
   row_new_pos0 (last (fp_log (fst (track_freqs
      (example_env\<lparr>observe := \<lparr>doppler = 1000, azimuth = 95, elevation = - 5\<rparr>\<rparr>)
      example_gui False example_ctrl)))) = 100 \<and>
   row_new_pos1 (last (fp_log (fst (track_freqs
      (example_env\<lparr>observe := \<lparr>doppler = 1000, azimuth = 95, elevation = - 5\<rparr>\<rparr>)
      example_gui False example_ctrl)))) = 0"
proof -
  let ?g = "example_gui\<lparr>flipper := True\<rparr>"
  let ?P = "\<lambda>a e. example_env\<lparr>observe := \<lparr>doppler = 1000, azimuth = a, elevation = e\<rparr>\<rparr>"
  have st: "transp_cur example_ctrl = Some example_transp"
    "fdown example_ctrl = Some 145950000" "vfos example_ctrl = Some [''A'', ''B'']"
    "[''A'', ''B''] \<noteq> [] \<or> \<not> (rig_engaged g \<or> False)"
    "length [''A'', ''B''] > 1 \<or> frqB example_ctrl \<noteq> None" for g
    by (simp_all add: example_ctrl_def)
  have ob: "a = azimuth (observe (?P a e))" "e = elevation (observe (?P a e))" for a e
    by simp_all
  have tr: "track_az ?g \<noteq> []" "track_az example_gui \<noteq> []"
    by (simp_all add: example_gui_def)
  have f: "flipper ?g" "\<not> flipper example_gui" "hd (track_az ?g) = 100"
    "hd (track_az example_gui) = 100"
    by (simp_all add: example_gui_def)
  have a: "track_freqs_new_pos ?g 120 30 = Inr (300, 150)"
    using rotor_target [where Force = False and gui = "?g" and P = "?P 120 30" and az = "120"
        and el = "30", OF st ob _ refl refl] f by simp
  have b: "track_freqs_new_pos ?g 200 10 = Inr (20, 170)"
    using rotor_target [where Force = False and gui = "?g" and P = "?P 200 10" and az = "200"
        and el = "10", OF st ob _ refl refl] f by simp
  have c: "track_freqs_new_pos ?g 95 (- 5) = Inr (280, 180)"
    using rotor_target [where Force = False and gui = "?g" and P = "?P 95 (- 5)" and az = "95"
        and el = "(- 5)", OF st ob _ refl refl] f tr by simp
  have d: "track_freqs_new_pos example_gui 95 (- 5) = Inr (100, 0)"
    and d': "snd (snd (track_freqs (?P 95 (- 5)) example_gui False example_ctrl)) = None"
      "row_new_pos0 (last (fp_log (fst (track_freqs (?P 95 (- 5)) example_gui False
         example_ctrl)))) = 100"
      "row_new_pos1 (last (fp_log (fst (track_freqs (?P 95 (- 5)) example_gui False
         example_ctrl)))) = 0"
    using rotor_target [where Force = False and gui = "example_gui" and P = "?P 95 (- 5)" and az = "95"
        and el = "(- 5)", OF st ob _ refl refl] f tr by simp_all
  have e: "track_freqs_new_pos example_gui 120 30 = Inr (120, 30)"
    using rotor_target [where Force = False and gui = "example_gui" and P = "?P 120 30" and az = "120"
        and el = "30", OF st ob _ refl refl] f by simp
  from a b c d d' e show ?thesis by blast
qed




subsection \<open>Properties of the timer tick\<close>









lemma track_freqs_disengaged:
  assumes "\<not> rig_engaged gui"
  shows "filter tunes (fst (snd (track_freqs P gui False self))) = []"
  using assms
  by (auto simp: track_freqs_def Doppler_Shifts_def track_freqs_rotor_def tunes_def Let_def
      split: option.splits prod.splits sum.splits)

lemma track_freqs_completes:
  assumes "snd (snd (track_freqs P gui Force self)) = None"
  shows "length (fp_log (fst (track_freqs P gui Force self))) = Suc (length (fp_log self))"
    and "fdown (fst (track_freqs P gui Force self)) = fdown self"
proof -
  obtain s cs where r: "track_freqs P gui Force self = (s, cs, None)"
    using assms by (cases "track_freqs P gui Force self") auto
  from track_freqs_log [OF r]
  show "length (fp_log (fst (track_freqs P gui Force self))) = Suc (length (fp_log self))"
    by (auto simp: r)
  from track_freqs_log [OF r] obtain tr fd where "transp_cur self = Some tr" "fdown self = Some fd"
    by blast
  then show "fdown (fst (track_freqs P gui Force self)) = fdown self"
    by (simp add: track_freqs_attrs(1))
qed

lemma set_rig_mode_tunes: "filter tunes (set_rig_mode tr vs m) = []"
  by (simp add: set_rig_mode_def tunes_def Let_def)

lemma Updater_new_sat_disengaged:
  assumes "\<not> rig_engaged gui"
  shows "filter tunes (fst (snd (snd (Updater_new_sat P gui self)))) = []"
  by (simp add: Updater_new_sat_def sat_mode_vfos_def Let_def case_prod_beta
      set_rig_mode_tunes track_freqs_disengaged [OF assms] tunes_def
      split: option.splits sum.splits)

lemma Updater_new_sat_completes:
  assumes "snd (snd (snd (Updater_new_sat P gui self))) = None"
  shows "length (fp_log (fst (snd (Updater_new_sat P gui self)))) = Suc (length (fp_log self))"
    and "\<not> New_Sat_Selection (fst (Updater_new_sat P gui self))"
    and "fdown (fst (snd (Updater_new_sat P gui self))) \<noteq> None"
proof -
  show "length (fp_log (fst (snd (Updater_new_sat P gui self)))) = Suc (length (fp_log self))"
    and "\<not> New_Sat_Selection (fst (Updater_new_sat P gui self))"
    using assms
    by (auto simp: Updater_new_sat_def Let_def case_prod_beta track_freqs_completes
        split: option.splits sum.splits if_splits)
  have "fdown (fst (snd (Updater_new_sat P gui self))) = None \<Longrightarrow> False"
    using assms
    by (simp add: Updater_new_sat_def Let_def case_prod_beta track_freqs_completes
        split: option.splits sum.splits if_splits)
  then show "fdown (fst (snd (Updater_new_sat P gui self))) \<noteq> None" by blast
qed

text \<open>
  C8, amended. While the loop is disengaged: once a reference downlink is set, a timer
  tick changes nothing, issues no command and writes no log record; before that, the
  tick after a selection runs the acquisition, which issues no frequency or position
  command and, when it completes, writes one log record, sets the reference downlink
  and clears the pending selection; and any unforced call of \<^verbatim>\<open>track_freqs\<close> issues no
  frequency or position command and, when it completes, writes one log record.
\<close>

theorem disengaged_tick:
  "(\<not> rig_engaged gui \<and> fdown self \<noteq> None \<longrightarrow> Updater P gui self = (gui, self, [], None)) \<and>
   (\<not> rig_engaged gui \<and> fdown self = None \<and> truthy (Selected gui) \<and> New_Sat_Selection gui \<longrightarrow>
      (\<forall>c \<in> set (fst (snd (snd (Updater P gui self)))). \<not> tunes c) \<and>
      (snd (snd (snd (Updater P gui self))) = None \<longrightarrow>
         length (fp_log (fst (snd (Updater P gui self)))) = Suc (length (fp_log self)) \<and>
         \<not> New_Sat_Selection (fst (Updater P gui self)) \<and>
         fdown (fst (snd (Updater P gui self))) \<noteq> None)) \<and>
   (\<not> rig_engaged gui \<longrightarrow>
      (\<forall>c \<in> set (fst (snd (track_freqs P gui False self))). \<not> tunes c) \<and>
      (snd (snd (track_freqs P gui False self)) = None \<longrightarrow>
         length (fp_log (fst (track_freqs P gui False self))) = Suc (length (fp_log self))))"
proof (intro conjI impI)
  assume "\<not> rig_engaged gui \<and> fdown self \<noteq> None"
  then show "Updater P gui self = (gui, self, [], None)"
    by (auto simp: Updater_def)
next
  assume h: "\<not> rig_engaged gui \<and> fdown self = None \<and> truthy (Selected gui) \<and>
             New_Sat_Selection gui"
  then have U: "Updater P gui self = Updater_new_sat P gui self"
    by (simp add: Updater_def)
  from h have "filter tunes (fst (snd (snd (Updater P gui self)))) = []"
    unfolding U by (simp add: Updater_new_sat_disengaged)
  then show "\<forall>c \<in> set (fst (snd (snd (Updater P gui self)))). \<not> tunes c"
    by (simp add: filter_empty_conv)
  assume "snd (snd (snd (Updater P gui self))) = None"
  then have e: "snd (snd (snd (Updater_new_sat P gui self))) = None"
    by (simp add: U)
  show "length (fp_log (fst (snd (Updater P gui self)))) = Suc (length (fp_log self))"
    and "\<not> New_Sat_Selection (fst (Updater P gui self))"
    and "fdown (fst (snd (Updater P gui self))) \<noteq> None"
    unfolding U using Updater_new_sat_completes [OF e] by blast+
next
  assume d: "\<not> rig_engaged gui"
  show "\<forall>c \<in> set (fst (snd (track_freqs P gui False self))). \<not> tunes c"
    using track_freqs_disengaged [OF d, of P self] by (simp add: filter_empty_conv)
  assume "snd (snd (track_freqs P gui False self)) = None"
  then show "length (fp_log (fst (track_freqs P gui False self))) = Suc (length (fp_log self))"
    by (rule track_freqs_completes(1))
qed


lemma ex_first_tick:
  "snd (snd (Updater example_env (example_gui\<lparr>rig_engaged := False, New_Sat_Selection := True\<rparr>)
      RigControl_init)) =
     ([split_mode 1, set_mode ''USB'' ''A'' (Filter None), set_mode ''LSB'' ''B'' NotGiven,
       recorder True], None)"
  by (simp add: Updater_def Updater_new_sat_def truthy_def example_gui_def example_env_def
      RigControl_init_def example_sat_def example_transp_def sat_mode_vfos_def
      set_rig_mode_def MODES_def track_freqs_def track_freqs_uplink_def Doppler_Shifts_def
      track_freqs_new_pos_def track_freqs_rotor_def ROTOR_THRESH_def Let_def)

theorem disengaged_tick_witness:
  "Updater example_env (example_gui\<lparr>rig_engaged := False\<rparr>) example_ctrl =
     (example_gui\<lparr>rig_engaged := False\<rparr>, example_ctrl, [], None) \<and>
   length (fp_log (fst (snd (Updater example_env
      (example_gui\<lparr>rig_engaged := False, New_Sat_Selection := True\<rparr>) RigControl_init)))) = 1 \<and>
   \<not> New_Sat_Selection (fst (Updater example_env
      (example_gui\<lparr>rig_engaged := False, New_Sat_Selection := True\<rparr>) RigControl_init)) \<and>
   fst (snd (snd (Updater example_env
      (example_gui\<lparr>rig_engaged := False, New_Sat_Selection := True\<rparr>) RigControl_init))) =
     [split_mode 1, set_mode ''USB'' ''A'' (Filter None), set_mode ''LSB'' ''B'' NotGiven,
      recorder True]"
proof -
  let ?g = "example_gui\<lparr>rig_engaged := False, New_Sat_Selection := True\<rparr>"
  have a: "\<not> rig_engaged (example_gui\<lparr>rig_engaged := False\<rparr>) \<and> fdown example_ctrl \<noteq> None"
    by (simp add: example_ctrl_def)
  have b: "\<not> rig_engaged ?g \<and> fdown RigControl_init = None \<and> truthy (Selected ?g) \<and>
           New_Sat_Selection ?g"
    by (simp add: example_gui_def RigControl_init_def truthy_def)
  have c: "snd (snd (snd (Updater example_env ?g RigControl_init))) = None"
    "fst (snd (snd (Updater example_env ?g RigControl_init))) =
       [split_mode 1, set_mode ''USB'' ''A'' (Filter None), set_mode ''LSB'' ''B'' NotGiven,
        recorder True]"
    using ex_first_tick by simp_all
  have l: "length (fp_log RigControl_init) = 0"
    by (simp add: RigControl_init_def)
  show ?thesis
    using disengaged_tick [of "example_gui\<lparr>rig_engaged := False\<rparr>" example_ctrl example_env]
      disengaged_tick [of ?g RigControl_init example_env] a b c l
    by simp
qed

text \<open>
  C8 as stated fails: with a satellite selected, the loop disengaged and the reference
  downlink set, a tick returns the state as it was, the log still empty.
\<close>

theorem disengaged_tick_counterexample:
  "Selected (example_gui\<lparr>rig_engaged := False\<rparr>) = Some ''AO-07'' \<and>
   \<not> rig_engaged (example_gui\<lparr>rig_engaged := False\<rparr>) \<and>
   fp_log example_ctrl = [] \<and>
   Updater example_env (example_gui\<lparr>rig_engaged := False\<rparr>) example_ctrl =
     (example_gui\<lparr>rig_engaged := False\<rparr>, example_ctrl, [], None)"
  by (simp add: Updater_def example_gui_def example_ctrl_def)


end
